theory Spec2Isabelle
  imports Complex_Main "HOL-Library.Sublist"
begin

section \<open>Python values, strings and exceptions\<close>

text \<open>
  The values that \<^verbatim>\<open>json.loads\<close> hands to the validators. A Python float is
  represented by the rational number it denotes (rounding to a double is not modelled;
  floats are only passed through by the code below). A dict is an association list in
  insertion order. A string is a list of characters with code points below 256.
\<close>

datatype pyval =
    PNone
  | PBool bool
  | PInt int
  | PFloat rat
  | PStr string
  | PList "pyval list"
  | PDict "(string \<times> pyval) list"

text \<open>
  Exceptions of the code. \<open>ValidationError\<close> carries the error types of the
  field-level errors that pydantic collected.
\<close>

datatype exn = ValueError | TypeError | OverflowError | ValidationError "string list"

text \<open>\<^verbatim>\<open>str.isspace\<close> on one character (also the regex class \<^verbatim>\<open>\s\<close>).\<close>

definition is_space :: "char \<Rightarrow> bool" where
  "is_space c = ((of_char c :: nat) \<in> set [9, 10, 11, 12, 13, 28, 29, 30, 31, 32, 133, 160])"

text \<open>The regex class \<^verbatim>\<open>\d\<close>: the ten decimal digits.\<close>

definition re_digit :: "char \<Rightarrow> bool" where
  "re_digit c = (c \<in> set ''0123456789'')"

text \<open>
  \<^verbatim>\<open>str.isdigit\<close> on one character: true of the decimal digits and also of the
  superscript digits two, three and one (code points 178, 179, 185).
\<close>

definition isdigit :: "char \<Rightarrow> bool" where
  "isdigit c = (re_digit c \<or> c \<in> set [CHR 0xB2, CHR 0xB3, CHR 0xB9])"

definition is_lower :: "char \<Rightarrow> bool" where
  "is_lower c = (97 \<le> (of_char c :: nat) \<and> (of_char c :: nat) \<le> 122)"

definition is_upper :: "char \<Rightarrow> bool" where
  "is_upper c = (65 \<le> (of_char c :: nat) \<and> (of_char c :: nat) \<le> 90)"

text \<open>
  \<^verbatim>\<open>str.upper\<close> and \<^verbatim>\<open>str.lower\<close>, exact on ASCII. A character above 127
  is left as it is: Python maps none of them to an ASCII letter other than the sharp s,
  whose upper case is \<open>SS\<close>, so the comparisons with \<open>YES\<close>, \<open>NO\<close> and the
  reserved words below come out the same.
\<close>

definition upper_char :: "char \<Rightarrow> char" where
  "upper_char c =
     (case map_of (zip ''abcdefghijklmnopqrstuvwxyz'' ''ABCDEFGHIJKLMNOPQRSTUVWXYZ'') c of
        Some u \<Rightarrow> u
      | None \<Rightarrow> c)"

definition lower_char :: "char \<Rightarrow> char" where
  "lower_char c =
     (case map_of (zip ''ABCDEFGHIJKLMNOPQRSTUVWXYZ'' ''abcdefghijklmnopqrstuvwxyz'') c of
        Some l \<Rightarrow> l
      | None \<Rightarrow> c)"

definition upper :: "string \<Rightarrow> string" where
  "upper s = map upper_char s"

definition lower :: "string \<Rightarrow> string" where
  "lower s = map lower_char s"

text \<open>\<^verbatim>\<open>str.strip()\<close>: whitespace removed at both ends.\<close>

definition strip :: "string \<Rightarrow> string" where
  "strip s = rev (dropWhile is_space (rev (dropWhile is_space s)))"

section \<open>The models: field validators of \<^verbatim>\<open>src/models/property.py\<close>\<close>

text \<open>\<^verbatim>\<open>HOARecord.validate_flag\<close>, the before-validator of \<open>hoa_flag\<close>.\<close>

definition validate_flag :: "pyval \<Rightarrow> pyval" where
  "validate_flag v =
     (case v of
        PNone \<Rightarrow> PNone
      | PStr s \<Rightarrow>
          (let v_upper = upper (strip s)
           in if v_upper \<notin> set [''YES'', ''NO''] then PNone else PStr v_upper)
      | _ \<Rightarrow> PNone)"

text \<open>\<^verbatim>\<open>RehabRecord.normalize_flags\<close>, the before-validator of the ten rehab flags.\<close>

definition normalize_flags :: "pyval \<Rightarrow> pyval" where
  "normalize_flags v =
     (case v of
        PNone \<Rightarrow> PNone
      | PStr s \<Rightarrow>
          (let v_upper = upper (strip s)
           in if v_upper \<notin> set [''YES'', ''NO''] then PNone else PStr v_upper)
      | _ \<Rightarrow> PNone)"

text \<open>
  \<^verbatim>\<open>Property.normalize_yes_no_flags\<close>, the before-validator of \<open>rent_restricted\<close>,
  \<open>pool\<close>, \<open>commercial\<close> and \<open>htw\<close>: its last line returns the input itself.
\<close>

definition normalize_yes_no_flags :: "pyval \<Rightarrow> pyval" where
  "normalize_yes_no_flags v =
     (case v of
        PNone \<Rightarrow> PNone
      | PStr s \<Rightarrow>
          (let v_upper = upper (strip s)
           in if v_upper \<in> set [''YES'', ''NO''] then PStr v_upper else v)
      | _ \<Rightarrow> v)"

text \<open>
  \<^verbatim>\<open>Property.normalize_empty_strings\<close>, the before-validator of \<open>reviewed_status\<close>,
  \<open>occupancy\<close> and \<open>flood\<close>.
\<close>

definition normalize_empty_strings :: "pyval \<Rightarrow> pyval" where
  "normalize_empty_strings v =
     (case v of
        PStr s \<Rightarrow> if strip s = [] then PNone else v
      | _ \<Rightarrow> v)"

text \<open>
  The type check that pydantic runs on an \<^verbatim>\<open>Optional[str]\<close> field after the
  before-validator (lax mode): \<open>None\<close> and strings pass, nothing else is coerced.
\<close>

definition pyd_optional_str :: "pyval \<Rightarrow> exn + string option" where
  "pyd_optional_str v =
     (case v of
        PNone \<Rightarrow> Inr None
      | PStr s \<Rightarrow> Inr (Some s)
      | _ \<Rightarrow> Inl (ValidationError [''string_type'']))"

text \<open>The value of the \<open>hoa_flag\<close> field of a validated \<open>HOARecord\<close>.\<close>

definition hoa_flag_field :: "pyval \<Rightarrow> exn + string option" where
  "hoa_flag_field v = pyd_optional_str (validate_flag v)"

text \<open>The value of each of the ten flag fields of a validated \<open>RehabRecord\<close>.\<close>

definition rehab_flag_field :: "pyval \<Rightarrow> exn + string option" where
  "rehab_flag_field v = pyd_optional_str (normalize_flags v)"

text \<open>
  Python's \<^verbatim>\<open>float\<close> on a string: surrounding whitespace, an optional sign, digits
  with an optional point, an optional exponent. The literals \<open>inf\<close> and \<open>nan\<close> and
  underscores between digits are left out (a float is a rational here); the code below
  calls \<^verbatim>\<open>float\<close> only on strings of digits and points.
\<close>

definition digits_value :: "string \<Rightarrow> nat" where
  "digits_value ds = foldl (\<lambda>a c. 10 * a + ((of_char c :: nat) - 48)) 0 ds"

definition split_sign :: "string \<Rightarrow> bool \<times> string" where
  "split_sign t =
     (case t of
        [] \<Rightarrow> (False, [])
      | c # r \<Rightarrow>
          if c = CHR ''-'' then (True, r) else if c = CHR ''+'' then (False, r) else (False, t))"

definition parse_exponent :: "string \<Rightarrow> int option" where
  "parse_exponent r =
     (case r of
        [] \<Rightarrow> Some 0
      | c # r' \<Rightarrow>
          if c = CHR ''e'' \<or> c = CHR ''E'' then
            (case split_sign r' of
               (neg, ds) \<Rightarrow>
                 if ds \<noteq> [] \<and> list_all re_digit ds
                 then Some (if neg then - int (digits_value ds) else int (digits_value ds))
                 else None)
          else None)"

definition scale10 :: "rat \<Rightarrow> int \<Rightarrow> rat" where
  "scale10 x e = (if 0 \<le> e then x * 10 ^ nat e else x / 10 ^ nat (- e))"

definition float_literal :: "string \<Rightarrow> rat option" where
  "float_literal s =
     (case split_sign (strip s) of
        (neg, u) \<Rightarrow>
          (let ip = takeWhile re_digit u;
               r1 = dropWhile re_digit u;
               fp = (case r1 of [] \<Rightarrow> [] | c # r \<Rightarrow>
                       if c = CHR ''.'' then takeWhile re_digit r else []);
               r2 = (case r1 of [] \<Rightarrow> [] | c # r \<Rightarrow>
                       if c = CHR ''.'' then dropWhile re_digit r else r1)
           in if ip = [] \<and> fp = [] then None
              else
                (case parse_exponent r2 of
                   None \<Rightarrow> None
                 | Some e \<Rightarrow>
                     (let m = of_nat (digits_value (ip @ fp)) / 10 ^ length fp
                      in Some (scale10 (if neg then - m else m) e)))))"

text \<open>
  Python's \<^verbatim>\<open>float(v)\<close>. An int converts when the nearest double is finite, that is
  below \<open>2^1024 - 2^970\<close> in absolute value; a larger one raises \<open>OverflowError\<close>.
\<close>

definition py_float :: "pyval \<Rightarrow> exn + rat" where
  "py_float v =
     (case v of
        PStr s \<Rightarrow> (case float_literal s of Some x \<Rightarrow> Inr x | None \<Rightarrow> Inl ValueError)
      | PInt i \<Rightarrow> if \<bar>i\<bar> < 2 ^ 1024 - 2 ^ 970 then Inr (of_int i) else Inl OverflowError
      | PBool b \<Rightarrow> Inr (if b then 1 else 0)
      | PFloat x \<Rightarrow> Inr x
      | _ \<Rightarrow> Inl TypeError)"

text \<open>
  \<^verbatim>\<open>Property.clean_sqft_total\<close>, the before-validator of \<open>sqft_total\<close>. Its two
  \<^verbatim>\<open>except\<close> clauses catch \<open>ValueError\<close>, and \<open>ValueError\<close> or \<open>TypeError\<close>; any
  other exception leaves the function.
\<close>

definition clean_sqft_total :: "pyval \<Rightarrow> exn + pyval" where
  "clean_sqft_total v =
     (case v of
        PNone \<Rightarrow> Inr PNone
      | PStr s \<Rightarrow>
          (let numeric_str = filter (\<lambda>c. isdigit c \<or> c = CHR ''.'') s
           in if numeric_str \<noteq> [] then
                (case py_float (PStr numeric_str) of
                   Inr x \<Rightarrow> Inr (PFloat x)
                 | Inl e \<Rightarrow> if e = ValueError then Inr PNone else Inl e)
              else Inr PNone)
      | _ \<Rightarrow>
          (case py_float v of
             Inr x \<Rightarrow> Inr (PFloat x)
           | Inl e \<Rightarrow> if e = ValueError \<or> e = TypeError then Inr PNone else Inl e))"

text \<open>
  The type check that pydantic runs on an \<^verbatim>\<open>Optional[float]\<close> field after the
  before-validator (lax mode): numbers pass, a string passes when the whole of it is a
  float literal.
\<close>

definition pyd_optional_float :: "pyval \<Rightarrow> exn + rat option" where
  "pyd_optional_float v =
     (case v of
        PNone \<Rightarrow> Inr None
      | PFloat x \<Rightarrow> Inr (Some x)
      | PInt i \<Rightarrow> Inr (Some (of_int i))
      | PBool b \<Rightarrow> Inr (Some (if b then 1 else 0))
      | PStr s \<Rightarrow>
          (case float_literal s of
             Some x \<Rightarrow> Inr (Some x)
           | None \<Rightarrow> Inl (ValidationError [''float_parsing'']))
      | _ \<Rightarrow> Inl (ValidationError [''float_type'']))"

text \<open>
  The \<^verbatim>\<open>@field_validator(..., mode="before")\<close> declarations of class \<open>Property\<close>:
  which function runs on the raw value of which field. A field that none of them names
  has no before-validator.
\<close>

definition property_before_validator :: "string \<Rightarrow> pyval \<Rightarrow> exn + pyval" where
  "property_before_validator field v =
     (if field = ''sqft_total'' then clean_sqft_total v
      else if field \<in> set [''reviewed_status'', ''occupancy'', ''flood'']
        then Inr (normalize_empty_strings v)
      else if field \<in> set [''rent_restricted'', ''pool'', ''commercial'', ''htw'']
        then Inr (normalize_yes_no_flags v)
      else Inr v)"


text \<open>The fields that \<open>normalize_yes_no_flags\<close> is declared for.\<close>

definition property_flag_fields :: "string list" where
  "property_flag_fields = [''rent_restricted'', ''pool'', ''commercial'', ''htw'']"

text \<open>
  The value that a validated \<open>Property\<close> holds in an \<^verbatim>\<open>Optional[float]\<close> field and
  in an \<^verbatim>\<open>Optional[str]\<close> field, from the raw value: the before-validator, then the
  type check.
\<close>

definition property_float_field :: "string \<Rightarrow> pyval \<Rightarrow> exn + rat option" where
  "property_float_field field v =
     (case property_before_validator field v of
        Inl e \<Rightarrow> Inl e
      | Inr w \<Rightarrow> pyd_optional_float w)"

definition property_str_field :: "string \<Rightarrow> pyval \<Rightarrow> exn + string option" where
  "property_str_field field v =
     (case property_before_validator field v of
        Inl e \<Rightarrow> Inl e
      | Inr w \<Rightarrow> pyd_optional_str w)"

text \<open>
  What the specification calls equal to "yes" or "no" case-insensitively after
  trimming, stated with lower case where the code compares upper case, and the
  tri-state value it asks for.
\<close>

definition says :: "string \<Rightarrow> pyval \<Rightarrow> bool" where
  "says w v = (case v of PStr s \<Rightarrow> lower (strip s) = w | _ \<Rightarrow> False)"

definition tri_state :: "pyval \<Rightarrow> string option" where
  "tri_state v =
     (if says ''yes'' v then Some ''YES'' else if says ''no'' v then Some ''NO'' else None)"

text \<open>The string branch of \<open>clean_sqft_total\<close> written as one expression.\<close>

definition strip_and_parse :: "string \<Rightarrow> rat option" where
  "strip_and_parse s =
     (let kept = filter (\<lambda>c. isdigit c \<or> c = CHR ''.'') s
      in if kept = [] then None else float_literal kept)"

text \<open>
  The coercion the specification describes for a numeric string: every character that is
  neither one of the digits 0 to 9 nor a point is dropped and the rest is parsed as a
  float; no result means absent.
\<close>

definition strip_to_decimal :: "string \<Rightarrow> string" where
  "strip_to_decimal s = filter (\<lambda>c. c \<in> set ''0123456789.'') s"

definition stripped_float :: "string \<Rightarrow> rat option" where
  "stripped_float s =
     (if strip_to_decimal s = [] then None else float_literal (strip_to_decimal s))"


section \<open>The repair engine of \<^verbatim>\<open>src/etl/preprocess.py\<close>\<close>

text \<open>
  The entries of the list \<open>fixes\<close>, one constructor for each message of the source:
  \<open>Converted number word to digit: w -> d\<close>, \<open>Quoted bareword: w\<close>,
  \<open>Quoted number with unit: n u\<close>, \<open>Removed trailing comma before c\<close>,
  \<open>Quoted unquoted key: k\<close> and \<open>Removed bare number in object: n\<close>.
\<close>

datatype fix_entry =
    ConvertedNumberWord string string
  | QuotedBareword string
  | QuotedNumberUnit string string
  | RemovedTrailingComma char
  | QuotedUnquotedKey string
  | RemovedBareNumber string

text \<open>The character classes \<^verbatim>\<open>[a-zA-Z]\<close>, \<^verbatim>\<open>[a-zA-Z_]\<close> and \<^verbatim>\<open>[a-zA-Z0-9_]\<close>.\<close>

definition is_alpha :: "char \<Rightarrow> bool" where
  "is_alpha c = (is_lower c \<or> is_upper c)"

definition is_ident_start :: "char \<Rightarrow> bool" where
  "is_ident_start c = (is_alpha c \<or> c = CHR ''_'')"

definition is_ident_char :: "char \<Rightarrow> bool" where
  "is_ident_char c = (is_alpha c \<or> re_digit c \<or> c = CHR ''_'')"

text \<open>
  \<^verbatim>\<open>re.sub(pattern, callback, text)\<close> for a pattern that matches no empty string. A
  rule tells, for the text from some position on, whether the pattern matches there, and
  then the number of characters matched, the string the callback returns and the entries
  it appends to \<open>fixes\<close>. The scan goes from left to right; after a match it resumes
  behind the matched characters (the counter says how many of them are still to skip).
\<close>

type_synonym rule = "string \<Rightarrow> (nat \<times> string \<times> fix_entry list) option"

fun re_sub_from :: "rule \<Rightarrow> nat \<Rightarrow> string \<Rightarrow> string \<times> fix_entry list" where
  "re_sub_from m k [] = ([], [])"
| "re_sub_from m (Suc k) (c # cs) = re_sub_from m k cs"
| "re_sub_from m 0 (c # cs) =
     (case m (c # cs) of
        Some (n, repl, logs) \<Rightarrow>
          (case re_sub_from m (n - 1) cs of (out, fs) \<Rightarrow> (repl @ out, logs @ fs))
      | None \<Rightarrow>
          (case re_sub_from m 0 cs of (out, fs) \<Rightarrow> (c # out, fs)))"

definition re_sub :: "rule \<Rightarrow> string \<Rightarrow> string \<times> fix_entry list" where
  "re_sub m s = re_sub_from m 0 s"

text \<open>
  The pattern \<^verbatim>\<open>:\s*([A-Z][a-zA-Z]*)\s*([,\}])\<close> at the start of a text: the number
  of characters matched, the bareword and the delimiter. Every repetition is followed by
  a character outside its class, so the greedy match is the only one.
\<close>

definition match_bareword :: "string \<Rightarrow> (nat \<times> string \<times> char) option" where
  "match_bareword s =
     (case s of
        [] \<Rightarrow> None
      | c0 # r0 \<Rightarrow>
          if c0 \<noteq> CHR '':'' then None
          else
            (case dropWhile is_space r0 of
               [] \<Rightarrow> None
             | c1 # r1 \<Rightarrow>
                 if \<not> is_upper c1 then None
                 else
                   (case dropWhile is_space (dropWhile is_alpha r1) of
                      [] \<Rightarrow> None
                    | d # r2 \<Rightarrow>
                        if d = CHR '','' \<or> d = CHR ''}''
                        then Some (length s - length r2, c1 # takeWhile is_alpha r1, d)
                        else None)))"

text \<open>\<^verbatim>\<open>str(n)\<close> for an int.\<close>

fun str_nat :: "nat \<Rightarrow> string" where
  "str_nat n =
     (if n < 10 then [''0123456789'' ! n]
      else str_nat (n div 10) @ [''0123456789'' ! (n mod 10)])"

definition str_int :: "int \<Rightarrow> string" where
  "str_int i = (if i < 0 then CHR ''-'' # str_nat (nat (- i)) else str_nat (nat i))"

text \<open>\<^verbatim>\<open>str.isdigit\<close> on a string.\<close>

definition str_isdigit :: "string \<Rightarrow> bool" where
  "str_isdigit s = (s \<noteq> [] \<and> list_all isdigit s)"

text \<open>
  \<open>try_convert_number_word\<close>. The library function \<^verbatim>\<open>w2n.word_to_num\<close> is a
  parameter: \<open>w2n w = Some n\<close> when it returns a number whose \<^verbatim>\<open>int\<close> is \<open>n\<close>,
  \<open>None\<close> when it raises.
\<close>

definition try_convert_number_word :: "(string \<Rightarrow> int option) \<Rightarrow> string \<Rightarrow> string" where
  "try_convert_number_word w2n word =
     (if word = [] then word
      else (case w2n (lower word) of Some n \<Rightarrow> str_int n | None \<Rightarrow> word))"

text \<open>The callback \<open>fix_any_bareword\<close> on the matched text, the bareword and the delimiter.\<close>

definition fix_any_bareword ::
  "(string \<Rightarrow> int option) \<Rightarrow> string \<Rightarrow> string \<Rightarrow> char \<Rightarrow> string \<times> fix_entry list" where
  "fix_any_bareword w2n group0 bareword delimiter =
     (if lower bareword \<in> set [''true'', ''false'', ''null''] then (group0, [])
      else
        (let converted = try_convert_number_word w2n bareword
         in if converted \<noteq> bareword \<and> str_isdigit converted
            then ('': '' @ converted @ [delimiter], [ConvertedNumberWord bareword converted])
            else ('': '' @ [CHR 0x22] @ bareword @ [CHR 0x22] @ [delimiter],
                  [QuotedBareword bareword])))"

definition bareword_rule :: "(string \<Rightarrow> int option) \<Rightarrow> rule" where
  "bareword_rule w2n s =
     (case match_bareword s of
        None \<Rightarrow> None
      | Some (n, bareword, delimiter) \<Rightarrow>
          (case fix_any_bareword w2n (take n s) bareword delimiter of
             (repl, logs) \<Rightarrow> Some (n, repl, logs)))"

text \<open>
  The pattern \<^verbatim>\<open>:\s*(\d+(?:\.\d+)?)\s+([a-z]+)\s*([,\}])\<close>: the number of characters
  matched, the number, the unit and the delimiter. \<open>number_span\<close> is the group
  \<^verbatim>\<open>(\d+(?:\.\d+)?)\<close>: the number (empty when there is no digit) and the text behind it.
\<close>

definition number_span :: "string \<Rightarrow> string \<times> string" where
  "number_span r =
     (let ip = takeWhile re_digit r; r2 = dropWhile re_digit r
      in if ip = [] then ([], r)
         else
           (case r2 of
              [] \<Rightarrow> (ip, r2)
            | p # r3 \<Rightarrow>
                if p = CHR ''.'' \<and> takeWhile re_digit r3 \<noteq> []
                then (ip @ p # takeWhile re_digit r3, dropWhile re_digit r3)
                else (ip, r2)))"

definition match_number_unit :: "string \<Rightarrow> (nat \<times> string \<times> string \<times> char) option" where
  "match_number_unit s =
     (case s of
        [] \<Rightarrow> None
      | c0 # r0 \<Rightarrow>
          if c0 \<noteq> CHR '':'' then None
          else
            (case number_span (dropWhile is_space r0) of
               (number, r3) \<Rightarrow>
                 if number = [] \<or> takeWhile is_space r3 = []
                    \<or> takeWhile is_lower (dropWhile is_space r3) = []
                 then None
                 else
                   (case dropWhile is_space (dropWhile is_lower (dropWhile is_space r3)) of
                      [] \<Rightarrow> None
                    | d # r4 \<Rightarrow>
                        if d = CHR '','' \<or> d = CHR ''}''
                        then Some (length s - length r4, number,
                                   takeWhile is_lower (dropWhile is_space r3), d)
                        else None)))"

definition number_unit_rule :: rule where
  "number_unit_rule s =
     (case match_number_unit s of
        None \<Rightarrow> None
      | Some (n, number, unit, d) \<Rightarrow>
          Some (n, '': '' @ [CHR 0x22] @ number @ '' '' @ unit @ [CHR 0x22] @ [d],
                [QuotedNumberUnit number unit]))"

text \<open>The pattern \<^verbatim>\<open>,\s*([\}\]])\<close>: the number of characters matched and the bracket.\<close>

definition match_trailing_comma :: "string \<Rightarrow> (nat \<times> char) option" where
  "match_trailing_comma s =
     (case s of
        [] \<Rightarrow> None
      | c0 # r0 \<Rightarrow>
          if c0 \<noteq> CHR '','' then None
          else
            (case dropWhile is_space r0 of
               [] \<Rightarrow> None
             | d # r1 \<Rightarrow>
                 if d = CHR ''}'' \<or> d = CHR '']'' then Some (length s - length r1, d)
                 else None))"

definition trailing_comma_rule :: rule where
  "trailing_comma_rule s =
     (case match_trailing_comma s of
        None \<Rightarrow> None
      | Some (n, d) \<Rightarrow> Some (n, [d], [RemovedTrailingComma d]))"

text \<open>
  The pattern \<^verbatim>\<open>\{\s*([a-zA-Z_][a-zA-Z0-9_]*)\s*:\<close>: the number of characters matched
  and the key.
\<close>

definition match_unquoted_key :: "string \<Rightarrow> (nat \<times> string) option" where
  "match_unquoted_key s =
     (case s of
        [] \<Rightarrow> None
      | c0 # r0 \<Rightarrow>
          if c0 \<noteq> CHR ''{'' then None
          else
            (case dropWhile is_space r0 of
               [] \<Rightarrow> None
             | c1 # r1 \<Rightarrow>
                 if \<not> is_ident_start c1 then None
                 else
                   (case dropWhile is_space (dropWhile is_ident_char r1) of
                      [] \<Rightarrow> None
                    | d # r2 \<Rightarrow>
                        if d = CHR '':''
                        then Some (length s - length r2, c1 # takeWhile is_ident_char r1)
                        else None)))"

text \<open>
  The callback \<open>fix_unquoted_key\<close> returns the f-string \<^verbatim>\<open>f'{{""{key}":'\<close>: an
  opening brace, two double quotes, the key, one double quote and a colon.
\<close>

definition unquoted_key_rule :: rule where
  "unquoted_key_rule s =
     (case match_unquoted_key s of
        None \<Rightarrow> None
      | Some (n, key) \<Rightarrow>
          Some (n, ''{'' @ [CHR 0x22, CHR 0x22] @ key @ [CHR 0x22] @ '':'',
                [QuotedUnquotedKey key]))"

text \<open>The pattern \<^verbatim>\<open>,\s*(\d+)\s*([,\}])\<close>: the number of characters matched, the number
  and the delimiter.\<close>

definition match_bare_number :: "string \<Rightarrow> (nat \<times> string \<times> char) option" where
  "match_bare_number s =
     (case s of
        [] \<Rightarrow> None
      | c0 # r0 \<Rightarrow>
          if c0 \<noteq> CHR '','' then None
          else
            (let r1 = dropWhile is_space r0; number = takeWhile re_digit r1
             in if number = [] then None
                else
                  (case dropWhile is_space (dropWhile re_digit r1) of
                     [] \<Rightarrow> None
                   | d # r2 \<Rightarrow>
                       if d = CHR '','' \<or> d = CHR ''}''
                       then Some (length s - length r2, number, d)
                       else None)))"

definition bare_number_rule :: rule where
  "bare_number_rule s =
     (case match_bare_number s of
        None \<Rightarrow> None
      | Some (n, number, d) \<Rightarrow> Some (n, [d], [RemovedBareNumber number]))"

text \<open>
  \<open>repair_bareword_values\<close>: the five substitutions in the order of the source, each on
  the text the one before it returned, all appending to the one list \<open>fixes\<close>.
\<close>

definition repair_bareword_values ::
  "(string \<Rightarrow> int option) \<Rightarrow> string \<Rightarrow> string \<times> fix_entry list" where
  "repair_bareword_values w2n raw_json_str =
     (case re_sub (bareword_rule w2n) raw_json_str of (t1, f1) \<Rightarrow>
      case re_sub number_unit_rule t1 of (t2, f2) \<Rightarrow>
      case re_sub trailing_comma_rule t2 of (t3, f3) \<Rightarrow>
      case re_sub unquoted_key_rule t3 of (t4, f4) \<Rightarrow>
      case re_sub bare_number_rule t4 of (t5, f5) \<Rightarrow>
        (t5, f1 @ f2 @ f3 @ f4 @ f5))"





















section \<open>The validated records of \<^verbatim>\<open>src/models/property.py\<close>\<close>

text \<open>
  The four pydantic classes as records, a field of type \<^verbatim>\<open>Optional[T]\<close> as an
  option.
\<close>

record ValuationRecord =
  list_price :: "rat option"
  previous_rent :: "rat option"
  arv :: "rat option"
  rent_zestimate :: "rat option"
  low_fmr :: "rat option"
  high_fmr :: "rat option"
  zestimate :: "rat option"
  expected_rent :: "rat option"
  redfin_value :: "rat option"

record HOARecord =
  hoa_amount :: "rat option"
  hoa_flag :: "string option"

record RehabRecord =
  underwriting_rehab :: "rat option"
  rehab_calculation :: "rat option"
  paint :: "string option"
  flooring_flag :: "string option"
  foundation_flag :: "string option"
  roof_flag :: "string option"
  hvac_flag :: "string option"
  kitchen_flag :: "string option"
  bathroom_flag :: "string option"
  appliances_flag :: "string option"
  windows_flag :: "string option"
  landscaping_flag :: "string option"
  trashout_flag :: "string option"

record Property =
  property_title :: "string"
  address :: "string"
  street_address :: "string"
  city :: "string"
  state :: "string"
  zip_code :: "string"
  latitude :: "rat"
  longitude :: "rat"
  property_type :: "string"
  year_built :: "int option"
  sqft_total :: "rat option"
  sqft_basement :: "rat option"
  sqft_mu :: "rat option"
  bed :: "int option"
  bath :: "int option"
  layout :: "string option"
  pool :: "string option"
  parking :: "string option"
  basement_yes_no :: "string option"
  water :: "string option"
  sewage :: "string option"
  htw :: "string option"
  commercial :: "string option"
  highway :: "string option"
  train :: "string option"
  flood :: "string option"
  occupancy :: "string option"
  net_yield :: "rat option"
  irr :: "rat option"
  taxes :: "rat option"
  tax_rate :: "rat option"
  market :: "string option"
  source :: "string option"
  neighborhood_rating :: "int option"
  school_average :: "rat option"
  subdivision :: "string option"
  reviewed_status :: "string option"
  most_recent_status :: "string option"
  selling_reason :: "string option"
  final_reviewer :: "string option"
  seller_retained_broker :: "string option"
  rent_restricted :: "string option"
  valuation :: "ValuationRecord list"
  hoa :: "HOARecord list"
  rehab :: "RehabRecord list"

section \<open>The batch loop of \<^verbatim>\<open>src/etl/extract.py\<close>\<close>

text \<open>An entry of \<open>invalid_records\<close>; \<open>errors\<close> holds the caught exception.\<close>

record invalid_record =
  record_index :: nat
  raw_record :: pyval
  errors :: exn

text \<open>
  How \<open>load_properties_from_json\<close> ends: it returns the two lists, or an exception
  leaves it. For the second case the outcome keeps the values that the loop variable
  \<open>idx\<close> and the two lists had at that moment.
\<close>

datatype 'p load_outcome =
    Returned "'p list" "invalid_record list"
  | Raised exn nat "'p list" "invalid_record list"

definition is_validation_error :: "exn \<Rightarrow> bool" where
  "is_validation_error e = (case e of ValidationError _ \<Rightarrow> True | _ \<Rightarrow> False)"

text \<open>
  The loop over \<^verbatim>\<open>enumerate(raw_data, 1)\<close>. \<open>Property.model_validate\<close> is the
  parameter \<open>model_validate\<close>. The \<^verbatim>\<open>except\<close> clause catches \<open>ValidationError\<close>
  only; with \<open>skip_invalid\<close> false it re-raises after the entry is appended.
\<close>

fun validate_loop ::
  "(pyval \<Rightarrow> exn + 'p) \<Rightarrow> bool \<Rightarrow> (nat \<times> pyval) list \<Rightarrow> 'p list \<Rightarrow> invalid_record list
     \<Rightarrow> 'p load_outcome" where
  "validate_loop model_validate skip_invalid [] valid_properties invalid_records =
     Returned valid_properties invalid_records"
| "validate_loop model_validate skip_invalid ((idx, raw_rec) # rest)
       valid_properties invalid_records =
     (case model_validate raw_rec of
        Inr validated_property \<Rightarrow>
          validate_loop model_validate skip_invalid rest
            (valid_properties @ [validated_property]) invalid_records
      | Inl e \<Rightarrow>
          if is_validation_error e then
            (let invalid_records' = invalid_records @
                   [\<lparr>record_index = idx, raw_record = raw_rec, errors = e\<rparr>]
             in if \<not> skip_invalid then Raised e idx valid_properties invalid_records'
                else validate_loop model_validate skip_invalid rest
                       valid_properties invalid_records')
          else Raised e idx valid_properties invalid_records)"

text \<open>
  \<open>Property.model_validate\<close> as far as the before-validator of \<open>sqft_total\<close>
  decides it. Pydantic turns a \<open>ValueError\<close> or an \<open>AssertionError\<close> of a validator
  into a field error; any other exception of a validator leaves \<open>model_validate\<close> as it
  is. So where the raw record has the key \<open>SQFT_Total\<close> and \<open>clean_sqft_total\<close>
  raises on its value, that exception is the outcome; everything else of the validation
  is the parameter \<open>other_checks\<close>.
\<close>

definition property_model_validate :: "(pyval \<Rightarrow> exn + 'p) \<Rightarrow> pyval \<Rightarrow> exn + 'p" where
  "property_model_validate other_checks raw_rec =
     (case raw_rec of
        PDict kvs \<Rightarrow>
          (case map_of kvs ''SQFT_Total'' of
             Some v \<Rightarrow>
               (case clean_sqft_total v of
                  Inl e \<Rightarrow> Inl e
                | Inr _ \<Rightarrow> other_checks raw_rec)
           | None \<Rightarrow> other_checks raw_rec)
      | _ \<Rightarrow> other_checks raw_rec)"

text \<open>A raw record with every required field, and an integer of 401 digits as its area.\<close>

definition oversized_area_record :: pyval where
  "oversized_area_record =
     PDict
       [(''Property_Title'', PStr ''A''), (''Address'', PStr ''1 Main St''),
        (''Street_Address'', PStr ''1 Main St''), (''City'', PStr ''Dallas''),
        (''State'', PStr ''TX''), (''Zip'', PStr ''75001''), (''Latitude'', PFloat 32),
        (''Longitude'', PFloat (- 96)), (''Property_Type'', PStr ''SFR''),
        (''SQFT_Total'', PInt (10 ^ 400))]"

text \<open>The slice \<^verbatim>\<open>xs[:n]\<close>; a negative \<open>n\<close> counts from the end.\<close>

definition py_slice_to :: "int \<Rightarrow> 'a list \<Rightarrow> 'a list" where
  "py_slice_to n xs = (if n < 0 then take (length xs - nat (- n)) xs else take (nat n) xs)"

text \<open>
  The records the loop runs over: a parsed value that is not a list is wrapped in one,
  and a truthy \<open>max_records\<close> (not \<open>None\<close>, not 0) truncates the list.
\<close>

definition records_to_process :: "int option \<Rightarrow> pyval \<Rightarrow> pyval list" where
  "records_to_process max_records raw_data =
     (let raw_list = (case raw_data of PList xs \<Rightarrow> xs | _ \<Rightarrow> [raw_data])
      in case max_records of
           None \<Rightarrow> raw_list
         | Some n \<Rightarrow> if n \<noteq> 0 then py_slice_to n raw_list else raw_list)"

text \<open>
  \<open>load_properties_from_json\<close> from the parsed JSON value on (reading, repairing and
  parsing the file come before and are not part of the loop).
\<close>

definition load_properties_from_json ::
  "(pyval \<Rightarrow> exn + 'p) \<Rightarrow> pyval \<Rightarrow> int option \<Rightarrow> bool \<Rightarrow> 'p load_outcome" where
  "load_properties_from_json model_validate raw_data max_records skip_invalid =
     validate_loop model_validate skip_invalid
       (enumerate 1 (records_to_process max_records raw_data)) [] []"

text \<open>
  The two output lists as the specification describes them: the records that validate
  (here with their 1-based positions in the input, then without), and one entry for each
  record that fails, both in input order.
\<close>

definition valid_from :: "(pyval \<Rightarrow> exn + 'p) \<Rightarrow> (nat \<times> pyval) list \<Rightarrow> (nat \<times> 'p) list" where
  "valid_from model_validate xs =
     List.map_filter
       (\<lambda>(idx, r). case model_validate r of Inr p \<Rightarrow> Some (idx, p) | Inl _ \<Rightarrow> None) xs"

definition failures_from ::
  "(pyval \<Rightarrow> exn + 'p) \<Rightarrow> (nat \<times> pyval) list \<Rightarrow> invalid_record list" where
  "failures_from model_validate xs =
     List.map_filter
       (\<lambda>(idx, r). case model_validate r of
           Inl e \<Rightarrow> Some \<lparr>record_index = idx, raw_record = r, errors = e\<rparr>
         | Inr _ \<Rightarrow> None) xs"

definition valid_indexed :: "(pyval \<Rightarrow> exn + 'p) \<Rightarrow> pyval list \<Rightarrow> (nat \<times> 'p) list" where
  "valid_indexed model_validate rs = valid_from model_validate (enumerate 1 rs)"

definition valid_in_order :: "(pyval \<Rightarrow> exn + 'p) \<Rightarrow> pyval list \<Rightarrow> 'p list" where
  "valid_in_order model_validate rs = map snd (valid_indexed model_validate rs)"

definition failures_in_order ::
  "(pyval \<Rightarrow> exn + 'p) \<Rightarrow> pyval list \<Rightarrow> invalid_record list" where
  "failures_in_order model_validate rs = failures_from model_validate (enumerate 1 rs)"

section \<open>The denormalizer of \<^verbatim>\<open>src/etl/transform.py\<close>\<close>

text \<open>A row is a dict from column names to values.\<close>

type_synonym row = "string \<rightharpoonup> pyval"

definition opt_float :: "rat option \<Rightarrow> pyval" where
  "opt_float x = (case x of None \<Rightarrow> PNone | Some v \<Rightarrow> PFloat v)"

definition opt_int :: "int option \<Rightarrow> pyval" where
  "opt_int x = (case x of None \<Rightarrow> PNone | Some v \<Rightarrow> PInt v)"

definition opt_str :: "string option \<Rightarrow> pyval" where
  "opt_str x = (case x of None \<Rightarrow> PNone | Some v \<Rightarrow> PStr v)"

record facts =
  properties :: "row list"
  valuations :: "row list"
  hoa_fees :: "row list"
  rehab_assessments :: "row list"

definition property_row :: "Property \<Rightarrow> row" where
  "property_row property_obj =
     map_of
       [(''property_title'', PStr (property_title property_obj)),
        (''address'', PStr (address property_obj)),
        (''street_address'', PStr (street_address property_obj)),
        (''city'', PStr (city property_obj)),
        (''state'', PStr (state property_obj)),
        (''zip_code'', PStr (zip_code property_obj)),
        (''latitude'', PFloat (latitude property_obj)),
        (''longitude'', PFloat (longitude property_obj)),
        (''property_type'', PStr (property_type property_obj)),
        (''year_built'', opt_int (year_built property_obj)),
        (''sqft_total'', opt_float (sqft_total property_obj)),
        (''sqft_basement'', opt_float (sqft_basement property_obj)),
        (''sqft_mu'', opt_float (sqft_mu property_obj)),
        (''bed'', opt_int (bed property_obj)),
        (''bath'', opt_int (bath property_obj)),
        (''layout'', opt_str (layout property_obj)),
        (''pool'', opt_str (pool property_obj)),
        (''parking'', opt_str (parking property_obj)),
        (''basement_yes_no'', opt_str (basement_yes_no property_obj)),
        (''water'', opt_str (water property_obj)),
        (''sewage'', opt_str (sewage property_obj)),
        (''htw'', opt_str (htw property_obj)),
        (''commercial'', opt_str (commercial property_obj)),
        (''highway'', opt_str (highway property_obj)),
        (''train'', opt_str (train property_obj)),
        (''flood'', opt_str (flood property_obj)),
        (''occupancy'', opt_str (occupancy property_obj)),
        (''net_yield'', opt_float (net_yield property_obj)),
        (''irr'', opt_float (irr property_obj)),
        (''taxes'', opt_float (taxes property_obj)),
        (''tax_rate'', opt_float (tax_rate property_obj)),
        (''market'', opt_str (market property_obj)),
        (''source'', opt_str (source property_obj)),
        (''neighborhood_rating'', opt_int (neighborhood_rating property_obj)),
        (''school_average'', opt_float (school_average property_obj)),
        (''subdivision'', opt_str (subdivision property_obj)),
        (''reviewed_status'', opt_str (reviewed_status property_obj)),
        (''most_recent_status'', opt_str (most_recent_status property_obj)),
        (''selling_reason'', opt_str (selling_reason property_obj)),
        (''final_reviewer'', opt_str (final_reviewer property_obj)),
        (''seller_retained_broker'', opt_str (seller_retained_broker property_obj)),
        (''rent_restricted'', opt_str (rent_restricted property_obj))]"

definition valuation_row :: "nat \<Rightarrow> nat \<Rightarrow> ValuationRecord \<Rightarrow> row" where
  "valuation_row property_id val_idx val_record =
     map_of
       [(''property_id'', PInt (int property_id)),
        (''valuation_index'', PInt (int val_idx + 1)),
        (''list_price'', opt_float (list_price val_record)),
        (''previous_rent'', opt_float (previous_rent val_record)),
        (''arv'', opt_float (arv val_record)),
        (''rent_zestimate'', opt_float (rent_zestimate val_record)),
        (''low_fmr'', opt_float (low_fmr val_record)),
        (''high_fmr'', opt_float (high_fmr val_record)),
        (''zestimate'', opt_float (zestimate val_record)),
        (''expected_rent'', opt_float (expected_rent val_record)),
        (''redfin_value'', opt_float (redfin_value val_record))]"

definition hoa_row :: "nat \<Rightarrow> nat \<Rightarrow> HOARecord \<Rightarrow> row" where
  "hoa_row property_id hoa_idx hoa_record =
     map_of
       [(''property_id'', PInt (int property_id)),
        (''hoa_index'', PInt (int hoa_idx + 1)),
        (''hoa_amount'', opt_float (hoa_amount hoa_record)),
        (''hoa_flag'', opt_str (hoa_flag hoa_record))]"

definition rehab_row :: "nat \<Rightarrow> nat \<Rightarrow> RehabRecord \<Rightarrow> row" where
  "rehab_row property_id rehab_idx rehab_record =
     map_of
       [(''property_id'', PInt (int property_id)),
        (''rehab_index'', PInt (int rehab_idx + 1)),
        (''underwriting_rehab'', opt_float (underwriting_rehab rehab_record)),
        (''rehab_calculation'', opt_float (rehab_calculation rehab_record)),
        (''paint'', opt_str (paint rehab_record)),
        (''flooring_flag'', opt_str (flooring_flag rehab_record)),
        (''foundation_flag'', opt_str (foundation_flag rehab_record)),
        (''roof_flag'', opt_str (roof_flag rehab_record)),
        (''hvac_flag'', opt_str (hvac_flag rehab_record)),
        (''kitchen_flag'', opt_str (kitchen_flag rehab_record)),
        (''bathroom_flag'', opt_str (bathroom_flag rehab_record)),
        (''appliances_flag'', opt_str (appliances_flag rehab_record)),
        (''windows_flag'', opt_str (windows_flag rehab_record)),
        (''landscaping_flag'', opt_str (landscaping_flag rehab_record)),
        (''trashout_flag'', opt_str (trashout_flag rehab_record))]"

text \<open>
  One round of the loop over \<open>properties\<close>: the property row is appended,
  \<open>property_id\<close> is the length of the list after that, and the three inner loops
  append one row for each entry of \<^verbatim>\<open>enumerate(...)\<close>.
\<close>

definition transform_property :: "facts \<Rightarrow> Property \<Rightarrow> facts" where
  "transform_property fs property_obj =
     (let fs1 = fs\<lparr>properties := properties fs @ [property_row property_obj]\<rparr>;
          property_id = length (properties fs1);
          fs2 = foldl (\<lambda>f (val_idx, val_record).
                  f\<lparr>valuations := valuations f @
                      [valuation_row property_id val_idx val_record]\<rparr>)
                fs1 (enumerate 0 (valuation property_obj));
          fs3 = foldl (\<lambda>f (hoa_idx, hoa_record).
                  f\<lparr>hoa_fees := hoa_fees f @ [hoa_row property_id hoa_idx hoa_record]\<rparr>)
                fs2 (enumerate 0 (hoa property_obj));
          fs4 = foldl (\<lambda>f (rehab_idx, rehab_record).
                  f\<lparr>rehab_assessments := rehab_assessments f @
                      [rehab_row property_id rehab_idx rehab_record]\<rparr>)
                fs3 (enumerate 0 (rehab property_obj))
      in fs4)"

definition transform_properties_to_facts :: "Property list \<Rightarrow> facts" where
  "transform_properties_to_facts ps =
     foldl transform_property
       \<lparr>properties = [], valuations = [], hoa_fees = [], rehab_assessments = []\<rparr> ps"


text \<open>
  The child rows the specification asks for one property: one row for each entry of the
  child list, in list order, with the property's id and the entry's 1-based position; and
  the child rows of a list of properties, the first of which has the id \<open>n + 1\<close>.
\<close>

definition valuation_block :: "nat \<Rightarrow> Property \<Rightarrow> row list" where
  "valuation_block property_id p =
     map (\<lambda>(val_idx, val_record). valuation_row property_id val_idx val_record)
       (enumerate 0 (valuation p))"

definition hoa_block :: "nat \<Rightarrow> Property \<Rightarrow> row list" where
  "hoa_block property_id p =
     map (\<lambda>(hoa_idx, hoa_record). hoa_row property_id hoa_idx hoa_record)
       (enumerate 0 (hoa p))"

definition rehab_block :: "nat \<Rightarrow> Property \<Rightarrow> row list" where
  "rehab_block property_id p =
     map (\<lambda>(rehab_idx, rehab_record). rehab_row property_id rehab_idx rehab_record)
       (enumerate 0 (rehab p))"

definition blocks :: "(nat \<Rightarrow> Property \<Rightarrow> row list) \<Rightarrow> nat \<Rightarrow> Property list \<Rightarrow> row list" where
  "blocks B n ps = concat (map (\<lambda>(k, p). B (Suc k) p) (enumerate n ps))"

section \<open>The dimension extractor of \<^verbatim>\<open>src/etl/transform.py\<close>\<close>

text \<open>The truth value of a Python value, as \<^verbatim>\<open>if\<close> tests it.\<close>

definition truthy :: "pyval \<Rightarrow> bool" where
  "truthy v =
     (case v of
        PNone \<Rightarrow> False
      | PBool b \<Rightarrow> b
      | PInt i \<Rightarrow> i \<noteq> 0
      | PFloat x \<Rightarrow> x \<noteq> 0
      | PStr s \<Rightarrow> s \<noteq> []
      | PList xs \<Rightarrow> xs \<noteq> []
      | PDict kvs \<Rightarrow> kvs \<noteq> [])"

text \<open>\<^verbatim>\<open>d.get(key)\<close>: the value, or \<open>None\<close> for a missing key.\<close>

definition dict_get :: "row \<Rightarrow> string \<Rightarrow> pyval" where
  "dict_get d key = (case d key of Some v \<Rightarrow> v | None \<Rightarrow> PNone)"

record dimensions =
  markets :: "pyval set"
  sources :: "pyval set"
  property_types :: "pyval set"
  layouts :: "pyval set"

text \<open>
  One round of the loop of \<open>extract_dimension_values\<close>. Where the test
  \<^verbatim>\<open>prop.get(key)\<close> is true the key is present, and \<^verbatim>\<open>prop[key]\<close> is that value.
\<close>

definition add_dimension_values :: "dimensions \<Rightarrow> row \<Rightarrow> dimensions" where
  "add_dimension_values ds prop =
     (let d1 = (if truthy (dict_get prop ''market'')
                then ds\<lparr>markets := insert (dict_get prop ''market'') (markets ds)\<rparr>
                else ds);
          d2 = (if truthy (dict_get prop ''source'')
                then d1\<lparr>sources := insert (dict_get prop ''source'') (sources d1)\<rparr>
                else d1);
          d3 = (if truthy (dict_get prop ''property_type'')
                then d2\<lparr>property_types :=
                        insert (dict_get prop ''property_type'') (property_types d2)\<rparr>
                else d2);
          d4 = (if truthy (dict_get prop ''layout'')
                then d3\<lparr>layouts := insert (dict_get prop ''layout'') (layouts d3)\<rparr>
                else d3)
      in d4)"

definition extract_dimension_values :: "facts \<Rightarrow> dimensions" where
  "extract_dimension_values fs =
     foldl add_dimension_values
       \<lparr>markets = {}, sources = {}, property_types = {}, layouts = {}\<rparr> (properties fs)"

text \<open>What the loop collects for one column, written as one expression.\<close>

definition truthy_values :: "string \<Rightarrow> row list \<Rightarrow> pyval set" where
  "truthy_values key rows = set (filter truthy (map (\<lambda>r. dict_get r key) rows))"

text \<open>
  The specification's side. The four dimension columns hold a string or nothing: the key
  is missing, or its value is \<open>None\<close> or a string. The values of a column that are
  present and non-empty are the strings other than the empty one, as a set (duplicates
  collapse).
\<close>

definition dimension_columns :: "string list" where
  "dimension_columns = [''market'', ''source'', ''property_type'', ''layout'']"

definition string_or_absent :: "pyval option \<Rightarrow> bool" where
  "string_or_absent x =
     (case x of
        None \<Rightarrow> True
      | Some PNone \<Rightarrow> True
      | Some (PStr _) \<Rightarrow> True
      | Some _ \<Rightarrow> False)"

definition string_columns :: "row list \<Rightarrow> bool" where
  "string_columns rows =
     list_all (\<lambda>r. list_all (\<lambda>key. string_or_absent (r key)) dimension_columns) rows"

definition present_string :: "pyval option \<Rightarrow> pyval option" where
  "present_string x =
     (case x of
        Some (PStr s) \<Rightarrow> if s = [] then None else Some (PStr s)
      | _ \<Rightarrow> None)"

definition present_values :: "string \<Rightarrow> row list \<Rightarrow> pyval set" where
  "present_values key rows = set (List.map_filter (\<lambda>r. present_string (r key)) rows)"

text \<open>
  Records for the scenarios of the specification: a property in the market Dallas with
  two valuation entries and no HOA or rehab entry, and a valuation entry.
\<close>

definition scenario_valuation :: "rat \<Rightarrow> ValuationRecord" where
  "scenario_valuation price =
     \<lparr>list_price = Some price, previous_rent = None, arv = None, rent_zestimate = None,
      low_fmr = None, high_fmr = None, zestimate = None, expected_rent = None,
      redfin_value = None\<rparr>"

definition scenario_property :: "Property" where
  "scenario_property =
     \<lparr>property_title = ''A'', address = ''1 Main St'', street_address = ''1 Main St'',
      city = ''Dallas'', state = ''TX'', zip_code = ''75001'', latitude = 32, longitude = - 96,
      property_type = ''SFR'', year_built = None, sqft_total = Some 5649,
      sqft_basement = None, sqft_mu = None, bed = Some 3, bath = None, layout = None,
      pool = None, parking = None, basement_yes_no = None, water = None, sewage = None,
      htw = None, commercial = None, highway = None, train = None, flood = None,
      occupancy = None, net_yield = None, irr = None, taxes = None, tax_rate = None,
      market = Some ''Dallas'', source = None, neighborhood_rating = None,
      school_average = None, subdivision = None, reviewed_status = None,
      most_recent_status = None, selling_reason = None, final_reviewer = None,
      seller_retained_broker = None, rent_restricted = None,
      valuation = [scenario_valuation 100000, scenario_valuation 120000],
      hoa = [], rehab = []\<rparr>"

section \<open>Characters and case\<close>

lemma upper_char_Y: "upper_char c = CHR ''Y'' \<longleftrightarrow> lower_char c = CHR ''y''"
  by (simp add: upper_char_def lower_char_def)

lemma upper_char_E: "upper_char c = CHR ''E'' \<longleftrightarrow> lower_char c = CHR ''e''"
  by (simp add: upper_char_def lower_char_def)

lemma upper_char_S: "upper_char c = CHR ''S'' \<longleftrightarrow> lower_char c = CHR ''s''"
  by (simp add: upper_char_def lower_char_def)

lemma upper_char_N: "upper_char c = CHR ''N'' \<longleftrightarrow> lower_char c = CHR ''n''"
  by (simp add: upper_char_def lower_char_def)

lemma upper_char_O: "upper_char c = CHR ''O'' \<longleftrightarrow> lower_char c = CHR ''o''"
  by (simp add: upper_char_def lower_char_def)

lemma upper_YES: "upper t = ''YES'' \<longleftrightarrow> lower t = ''yes''"
  by (auto simp: upper_def lower_def map_eq_Cons_conv upper_char_Y upper_char_E upper_char_S)

lemma upper_NO: "upper t = ''NO'' \<longleftrightarrow> lower t = ''no''"
  by (auto simp: upper_def lower_def map_eq_Cons_conv upper_char_N upper_char_O)

section \<open>Flag normalization\<close>

lemma validate_flag_tri_state:
  "validate_flag v = (case tri_state v of Some t \<Rightarrow> PStr t | None \<Rightarrow> PNone)"
  by (cases v) (auto simp: validate_flag_def tri_state_def says_def Let_def upper_YES upper_NO)

lemma normalize_flags_tri_state:
  "normalize_flags v = (case tri_state v of Some t \<Rightarrow> PStr t | None \<Rightarrow> PNone)"
  by (cases v) (auto simp: normalize_flags_def tri_state_def says_def Let_def upper_YES upper_NO)

lemma normalize_yes_no_flags_tri_state:
  "normalize_yes_no_flags v = (case tri_state v of Some t \<Rightarrow> PStr t | None \<Rightarrow> v)"
  by (cases v)
    (auto simp: normalize_yes_no_flags_def tri_state_def says_def Let_def upper_YES upper_NO)

text \<open>
  C3, as the code has it. The flag of an HOA entry and the ten flags of a rehab entry take
  the tri-state value of any raw input: \<open>YES\<close> or \<open>NO\<close> for a string that says yes or
  no (case-insensitively, trimmed), absent for every other value, and never an error. The
  before-validator of the four Property-level fields (\<open>rent_restricted\<close>, \<open>pool\<close>,
  \<open>commercial\<close>, \<open>htw\<close>) normalizes yes and no in the same way, and hands every other
  value on unchanged.
\<close>

theorem flag_normalization:
  assumes "field \<in> set property_flag_fields"
  shows "hoa_flag_field v = Inr (tri_state v)
    \<and> rehab_flag_field v = Inr (tri_state v)
    \<and> property_before_validator field v =
        Inr (case tri_state v of Some t \<Rightarrow> PStr t | None \<Rightarrow> v)"
proof -
  have hoa: "hoa_flag_field v = Inr (tri_state v)"
    by (simp add: hoa_flag_field_def validate_flag_tri_state pyd_optional_str_def
        split: option.split)
  have rehab: "rehab_flag_field v = Inr (tri_state v)"
    by (simp add: rehab_flag_field_def normalize_flags_tri_state pyd_optional_str_def
        split: option.split)
  from assms have "field \<noteq> ''sqft_total''"
    and "field \<notin> set [''reviewed_status'', ''occupancy'', ''flood'']"
    and "field \<in> set [''rent_restricted'', ''pool'', ''commercial'', ''htw'']"
    by (auto simp: property_flag_fields_def)
  then have "property_before_validator field v =
      Inr (case tri_state v of Some t \<Rightarrow> PStr t | None \<Rightarrow> v)"
    unfolding property_before_validator_def
    by (simp only: if_True if_False normalize_yes_no_flags_tri_state)
  with hoa rehab show ?thesis by simp
qed

theorem flag_normalization_witness:
  "''pool'' \<in> set property_flag_fields
   \<and> hoa_flag_field (PStr '' yEs '') = Inr (Some ''YES'')
   \<and> rehab_flag_field (PStr ''n/a'') = Inr None
   \<and> property_before_validator ''pool'' (PStr ''No'') = Inr (PStr ''NO'')"
proof -
  have f: "''pool'' \<in> set property_flag_fields"
    by (simp add: property_flag_fields_def)
  have t1: "tri_state (PStr '' yEs '') = Some ''YES''"
    by (simp add: tri_state_def says_def strip_def is_space_def lower_def lower_char_def)
  have t2: "tri_state (PStr ''n/a'') = None"
    by (simp add: tri_state_def says_def strip_def is_space_def lower_def lower_char_def)
  have t3: "tri_state (PStr ''No'') = Some ''NO''"
    by (simp add: tri_state_def says_def strip_def is_space_def lower_def lower_char_def)
  from f flag_normalization [OF f, of "PStr '' yEs ''"]
    flag_normalization [OF f, of "PStr ''n/a''"]
    flag_normalization [OF f, of "PStr ''No''"]
  show ?thesis by (simp add: t1 t2 t3)
qed

text \<open>
  C3 as stated fails on the Property-level flags: the raw value \<open>maybe\<close> for \<open>pool\<close>
  is neither yes nor no, and the validated field holds \<open>maybe\<close>, not absent.
\<close>

theorem property_flag_counterexample:
  "''pool'' \<in> set property_flag_fields
   \<and> tri_state (PStr ''maybe'') = None
   \<and> property_str_field ''pool'' (PStr ''maybe'') = Inr (Some ''maybe'')"
  by (simp add: property_flag_fields_def tri_state_def says_def strip_def is_space_def
      lower_def lower_char_def property_str_field_def property_before_validator_def
      normalize_yes_no_flags_def upper_def upper_char_def pyd_optional_str_def)

section \<open>The square-footage coercion\<close>






lemma py_float_str:
  "py_float (PStr t) = (case float_literal t of Some x \<Rightarrow> Inr x | None \<Rightarrow> Inl ValueError)"
  by (simp add: py_float_def)

lemma clean_sqft_total_str:
  "clean_sqft_total (PStr s) =
     Inr (case strip_and_parse s of Some x \<Rightarrow> PFloat x | None \<Rightarrow> PNone)"
  by (simp add: clean_sqft_total_def strip_and_parse_def Let_def py_float_str
      split: option.split)

lemma sqft_total_field_str:
  "property_float_field ''sqft_total'' (PStr s) = Inr (strip_and_parse s)"
  by (simp add: property_float_field_def property_before_validator_def clean_sqft_total_str
      pyd_optional_float_def split: option.split)





lemma float_literal_12: "float_literal ''12'' = Some 12"
  by (simp add: float_literal_def strip_def is_space_def split_sign_def re_digit_def
      parse_exponent_def digits_value_def scale10_def)


lemma float_literal_5649_sqft: "float_literal ''5649 sqft'' = None"
  by (simp add: float_literal_def strip_def is_space_def split_sign_def re_digit_def
      parse_exponent_def)








text \<open>
  Where a string holds a superscript digit the filter of \<open>clean_sqft_total\<close> keeps it,
  since \<^verbatim>\<open>str.isdigit\<close> is true of it, and \<^verbatim>\<open>float\<close> then fails: an area written
  with the sign for square metres gives absent, not 120.
\<close>

lemma superscript_digit_kept:
  "stripped_float (''120 m'' @ [CHR 0xB2]) = Some 120
   \<and> property_float_field ''sqft_total'' (PStr (''120 m'' @ [CHR 0xB2])) = Inr None"
  by (simp add: stripped_float_def strip_to_decimal_def sqft_total_field_str
      strip_and_parse_def isdigit_def re_digit_def float_literal_def strip_def is_space_def
      split_sign_def parse_exponent_def digits_value_def scale10_def Let_def)

lemma huge_int: "\<not> \<bar>10 ^ 400 :: int\<bar> < 2 ^ 1024 - 2 ^ 970"
  by simp

lemma clean_sqft_total_raises_only:
  "clean_sqft_total v = Inl e \<Longrightarrow>
     e = OverflowError \<and> (\<exists>i. v = PInt i \<and> 2 ^ 1024 - 2 ^ 970 \<le> \<bar>i\<bar>)"
  by (cases v)
    (auto simp: clean_sqft_total_def py_float_def Let_def
      split: if_splits option.splits sum.splits)

text \<open>
  C10 fails on the code at an integer too large for a double: \<^verbatim>\<open>float(v)\<close> raises
  \<open>OverflowError\<close>, which neither \<^verbatim>\<open>except\<close> clause of \<open>clean_sqft_total\<close>
  catches, so the function raises instead of returning absent.
\<close>

theorem clean_sqft_total_overflow:
  "clean_sqft_total (PInt (10 ^ 400)) = Inl OverflowError"
  unfolding clean_sqft_total_def py_float_def pyval.case using huge_int by simp

section \<open>The repair rules on concrete texts\<close>

lemmas repair_defs =
  match_bareword_def number_span_def match_number_unit_def match_trailing_comma_def
  match_unquoted_key_def match_bare_number_def bareword_rule_def number_unit_rule_def
  trailing_comma_rule_def unquoted_key_rule_def bare_number_rule_def
  is_space_def re_digit_def is_lower_def is_upper_def is_alpha_def is_ident_start_def
  is_ident_char_def re_sub_def repair_bareword_values_def Let_def

text \<open>
  C5 fails on the code: the unquoted-key rule finds the key \<open>Bed\<close> of the text
  \<^verbatim>\<open>{Bed: 3}\<close> and logs one entry for it, and writes two double quotes in front of the
  key, so the repaired text is \<^verbatim>\<open>{""Bed": 3}\<close> and not \<^verbatim>\<open>{"Bed": 3}\<close>.
\<close>

theorem unquoted_key_doubled_quote:
  \<open>repair_bareword_values w2n ''{Bed: 3}'' = (''{""Bed": 3}'', [QuotedUnquotedKey ''Bed''])
   \<and> fst (repair_bareword_values w2n ''{Bed: 3}'') \<noteq> ''{"Bed": 3}''\<close>
  by (simp add: repair_defs)

text \<open>
  C6 fails on the code: the pattern of the bare-number rule has no notion of an object,
  and the second element of the well-formed array \<^verbatim>\<open>[1,2,3]\<close> is deleted, with the log
  entry \<open>Removed bare number in object: 2\<close>.
\<close>

theorem bare_number_in_array_deleted:
  \<open>repair_bareword_values w2n ''[1,2,3]'' = (''[1,3]'', [RemovedBareNumber ''2''])\<close>
  by (simp add: repair_defs)

section \<open>The batch loop\<close>

lemma validate_loop_skip:
  assumes "\<forall>(i, r) \<in> set xs. \<forall>e. mv r = Inl e \<longrightarrow> is_validation_error e"
  shows "validate_loop mv True xs V I =
    Returned (V @ map snd (valid_from mv xs)) (I @ failures_from mv xs)"
  using assms
proof (induction xs arbitrary: V I)
  case Nil
  then show ?case by (simp add: valid_from_def failures_from_def map_filter_simps)
next
  case (Cons x xs)
  obtain i r where x: "x = (i, r)" by (cases x)
  from Cons.prems
  have rest: "\<forall>(i, r) \<in> set xs. \<forall>e. mv r = Inl e \<longrightarrow> is_validation_error e"
    by simp
  show ?case
  proof (cases "mv r")
    case (Inr p)
    then show ?thesis
      using Cons.IH [OF rest]
      by (simp add: x valid_from_def failures_from_def map_filter_simps)
  next
    case (Inl e)
    with Cons.prems have "is_validation_error e" by (simp add: x)
    with Inl show ?thesis
      using Cons.IH [OF rest]
      by (simp add: x valid_from_def failures_from_def map_filter_simps)
  qed
qed

lemma valid_indices_sorted:
  "sorted_wrt (<) (map fst (valid_from mv (enumerate n rs)))
   \<and> (\<forall>i \<in> set (map fst (valid_from mv (enumerate n rs))). n \<le> i \<and> i < n + length rs)"
proof (induction rs arbitrary: n)
  case Nil
  then show ?case by (simp add: valid_from_def map_filter_simps)
next
  case (Cons r rs)
  from Cons.IH [of "Suc n"] show ?case
    by (cases "mv r") (auto simp: valid_from_def map_filter_simps)
qed

lemma failure_indices_sorted:
  "sorted_wrt (<) (map record_index (failures_from mv (enumerate n rs)))
   \<and> (\<forall>i \<in> set (map record_index (failures_from mv (enumerate n rs))).
        n \<le> i \<and> i < n + length rs)"
proof (induction rs arbitrary: n)
  case Nil
  then show ?case by (simp add: failures_from_def map_filter_simps)
next
  case (Cons r rs)
  from Cons.IH [of "Suc n"] show ?case
    by (cases "mv r") (auto simp: failures_from_def map_filter_simps)
qed

lemma indices_partition:
  "set (map fst (valid_from mv (enumerate n rs)))
     \<union> set (map record_index (failures_from mv (enumerate n rs))) = {n..<n + length rs}
   \<and> length (valid_from mv (enumerate n rs)) + length (failures_from mv (enumerate n rs))
       = length rs"
proof (induction rs arbitrary: n)
  case Nil
  then show ?case by (simp add: valid_from_def failures_from_def map_filter_simps)
next
  case (Cons r rs)
  have "{n..<n + length (r # rs)} = insert n {Suc n..<Suc n + length rs}" by auto
  with Cons.IH [of "Suc n"] show ?case
    by (cases "mv r") (auto simp: valid_from_def failures_from_def map_filter_simps)
qed

lemma validate_loop_stop:
  assumes "\<forall>r \<in> set pre. \<exists>p. mv r = Inr p" "mv bad = Inl e" "is_validation_error e"
  shows "validate_loop mv False (enumerate n (pre @ bad # post)) V I =
    Raised e (n + length pre) (V @ map snd (valid_from mv (enumerate n pre)))
      (I @ [\<lparr>record_index = n + length pre, raw_record = bad, errors = e\<rparr>])"
  using assms(1)
proof (induction pre arbitrary: n V I)
  case Nil
  then show ?case using assms(2,3) by (simp add: valid_from_def map_filter_simps)
next
  case (Cons r pre)
  then obtain p where p: "mv r = Inr p" by auto
  from Cons.prems have "\<forall>r \<in> set pre. \<exists>p. mv r = Inr p" by simp
  from Cons.IH [OF this, of "Suc n"] p show ?case
    by (simp add: valid_from_def map_filter_simps)
qed

lemma basement_field_examples:
  "property_float_field ''sqft_basement'' (PStr ''12'') = Inr (Some 12)"
  "property_float_field ''sqft_basement'' (PStr ''5649 sqft'') =
     Inl (ValidationError [''float_parsing''])"
  "property_float_field ''sqft_basement'' (PFloat 3) = Inr (Some 3)"
  by (simp_all add: property_float_field_def property_before_validator_def
      pyd_optional_float_def float_literal_12 float_literal_5649_sqft)

text \<open>
  With \<open>skip_invalid\<close> true (the default), and every failure of a record a
  \<open>ValidationError\<close>, the load returns: the first list holds the records that validate
  and the second one entry for each record that fails, each in input order with strictly
  increasing record indices, and every position of the input, from 1 to the number of
  records, is the index of an entry of one of the two lists.
\<close>

lemma skip_invalid_keeps_order:
  assumes "records_to_process max_records raw_data = rs"
    and "\<forall>r \<in> set rs. \<forall>e. model_validate r = Inl e \<longrightarrow> is_validation_error e"
  shows "load_properties_from_json model_validate raw_data max_records True =
           Returned (valid_in_order model_validate rs) (failures_in_order model_validate rs)
    \<and> sorted_wrt (<) (map fst (valid_indexed model_validate rs))
    \<and> sorted_wrt (<) (map record_index (failures_in_order model_validate rs))
    \<and> set (map fst (valid_indexed model_validate rs))
        \<union> set (map record_index (failures_in_order model_validate rs)) = {1..<1 + length rs}
    \<and> length (valid_in_order model_validate rs)
        + length (failures_in_order model_validate rs) = length rs"
proof -
  have "r \<in> set rs" if "(i, r) \<in> set (enumerate 1 rs)" for i r
  proof -
    from that have "r = rs ! (i - 1)" and "i - 1 < length rs"
      by (auto simp: in_set_enumerate_eq)
    then show ?thesis by simp
  qed
  with assms(2)
  have "\<forall>(i, r) \<in> set (enumerate 1 rs). \<forall>e. model_validate r = Inl e \<longrightarrow> is_validation_error e"
    by blast
  from validate_loop_skip [OF this, of "[]" "[]"]
  have "load_properties_from_json model_validate raw_data max_records True =
      Returned (valid_in_order model_validate rs) (failures_in_order model_validate rs)"
    by (simp add: load_properties_from_json_def assms(1) valid_in_order_def valid_indexed_def
        failures_in_order_def)
  moreover have "sorted_wrt (<) (map fst (valid_indexed model_validate rs))"
    using valid_indices_sorted [of model_validate 1 rs] by (simp add: valid_indexed_def)
  moreover have "sorted_wrt (<) (map record_index (failures_in_order model_validate rs))"
    using failure_indices_sorted [of model_validate 1 rs] by (simp add: failures_in_order_def)
  moreover have "set (map fst (valid_indexed model_validate rs))
        \<union> set (map record_index (failures_in_order model_validate rs)) = {1..<1 + length rs}"
    using indices_partition [of model_validate 1 rs]
    by (simp add: valid_indexed_def failures_in_order_def)
  moreover have "length (valid_in_order model_validate rs)
        + length (failures_in_order model_validate rs) = length rs"
    using indices_partition [of model_validate 1 rs]
    by (simp add: valid_in_order_def valid_indexed_def failures_in_order_def)
  ultimately show ?thesis by blast
qed

lemma skip_invalid_keeps_order_example:
  "load_properties_from_json (property_float_field ''sqft_basement'')
     (PList [PStr ''12'', PStr ''5649 sqft'', PFloat 3]) None True =
   Returned [Some 12, Some 3]
     [\<lparr>record_index = 2, raw_record = PStr ''5649 sqft'',
       errors = ValidationError [''float_parsing'']\<rparr>]"
proof -
  let ?mv = "property_float_field ''sqft_basement''"
  let ?rs = "[PStr ''12'', PStr ''5649 sqft'', PFloat 3]"
  have rs: "records_to_process None (PList ?rs) = ?rs"
    by (simp add: records_to_process_def)
  have ok: "\<forall>r \<in> set ?rs. \<forall>e. ?mv r = Inl e \<longrightarrow> is_validation_error e"
    by (simp add: basement_field_examples is_validation_error_def)
  have v: "valid_in_order ?mv ?rs = [Some 12, Some 3]"
    by (simp add: valid_in_order_def valid_indexed_def valid_from_def
        map_filter_simps basement_field_examples)
  have f: "failures_in_order ?mv ?rs =
      [\<lparr>record_index = 2, raw_record = PStr ''5649 sqft'',
        errors = ValidationError [''float_parsing'']\<rparr>]"
    by (simp add: failures_in_order_def failures_from_def
        map_filter_simps basement_field_examples)
  from skip_invalid_keeps_order [OF rs ok] show ?thesis
    by (simp only: v f)
qed

text \<open>
  C2 fails on the code where the failure of a record is not a \<open>ValidationError\<close>. The
  before-validator of \<open>sqft_total\<close> raises \<open>OverflowError\<close> on an integer too large
  for a double, the loop catches \<open>ValidationError\<close> only, and so in the default mode
  the load ends at that record: whatever record follows is not processed.
\<close>

theorem overflow_stops_default_mode:
  "load_properties_from_json (property_model_validate other_checks)
     (PList [oversized_area_record, later_record]) None True =
   Raised OverflowError 1 [] []"
proof -
  have "clean_sqft_total (PInt (10 ^ 400)) = Inl OverflowError"
    unfolding clean_sqft_total_def py_float_def pyval.case using huge_int by simp
  then have "property_model_validate other_checks oversized_area_record = Inl OverflowError"
    by (simp add: property_model_validate_def oversized_area_record_def)
  then show ?thesis
    by (simp add: load_properties_from_json_def records_to_process_def
        is_validation_error_def)
qed

text \<open>
  C7. With \<open>skip_invalid\<close> false, when the records before some record all validate and
  that record fails with a \<open>ValidationError\<close>, the error leaves the load at that
  record's index: the valid list then holds the records before it, the failure list its
  one entry, and nothing depends on the records after it.
\<close>

theorem stop_on_first_failure:
  assumes "records_to_process max_records raw_data = pre @ bad # post"
    and "\<forall>r \<in> set pre. \<exists>p. model_validate r = Inr p"
    and "model_validate bad = Inl e"
    and "is_validation_error e"
  shows "load_properties_from_json model_validate raw_data max_records False =
           Raised e (length pre + 1) (valid_in_order model_validate pre)
             [\<lparr>record_index = length pre + 1, raw_record = bad, errors = e\<rparr>]"
  using validate_loop_stop [OF assms(2,3,4), of 1 post "[]" "[]"]
  by (simp add: load_properties_from_json_def assms(1) valid_in_order_def valid_indexed_def)

theorem stop_on_first_failure_witness:
  "load_properties_from_json (property_float_field ''sqft_basement'')
     (PList [PStr ''12'', PStr ''5649 sqft'', PFloat 3]) None False =
   Raised (ValidationError [''float_parsing'']) 2 [Some 12]
     [\<lparr>record_index = 2, raw_record = PStr ''5649 sqft'',
       errors = ValidationError [''float_parsing'']\<rparr>]"
proof -
  let ?mv = "property_float_field ''sqft_basement''"
  have rs: "records_to_process None (PList [PStr ''12'', PStr ''5649 sqft'', PFloat 3]) =
      [PStr ''12''] @ PStr ''5649 sqft'' # [PFloat 3]"
    by (simp add: records_to_process_def)
  have pre: "\<forall>r \<in> set [PStr ''12'']. \<exists>p. ?mv r = Inr p"
    by (simp add: basement_field_examples)
  have bad: "?mv (PStr ''5649 sqft'') = Inl (ValidationError [''float_parsing''])"
    by (simp add: basement_field_examples)
  have e: "is_validation_error (ValidationError [''float_parsing''])"
    by (simp add: is_validation_error_def)
  have v: "valid_in_order ?mv [PStr ''12''] = [Some 12]"
    by (simp add: valid_in_order_def valid_indexed_def valid_from_def
        map_filter_simps basement_field_examples)
  from stop_on_first_failure [OF rs pre bad e] show ?thesis
    by (simp add: v)
qed

section \<open>The denormalizer\<close>

lemma valuations_loop:
  "foldl (\<lambda>f (i, v). f\<lparr>valuations := valuations f @ [valuation_row pid i v]\<rparr>) fs xs
   = fs\<lparr>valuations := valuations fs @ map (\<lambda>(i, v). valuation_row pid i v) xs\<rparr>"
  by (induction xs arbitrary: fs) (auto simp: case_prod_beta)

lemma hoa_loop:
  "foldl (\<lambda>f (i, v). f\<lparr>hoa_fees := hoa_fees f @ [hoa_row pid i v]\<rparr>) fs xs
   = fs\<lparr>hoa_fees := hoa_fees fs @ map (\<lambda>(i, v). hoa_row pid i v) xs\<rparr>"
  by (induction xs arbitrary: fs) (auto simp: case_prod_beta)

lemma rehab_loop:
  "foldl (\<lambda>f (i, v). f\<lparr>rehab_assessments := rehab_assessments f @ [rehab_row pid i v]\<rparr>) fs xs
   = fs\<lparr>rehab_assessments := rehab_assessments fs @ map (\<lambda>(i, v). rehab_row pid i v) xs\<rparr>"
  by (induction xs arbitrary: fs) (auto simp: case_prod_beta)

lemma transform_property_eq:
  "transform_property fs p =
     \<lparr>properties = properties fs @ [property_row p],
      valuations = valuations fs @ valuation_block (Suc (length (properties fs))) p,
      hoa_fees = hoa_fees fs @ hoa_block (Suc (length (properties fs))) p,
      rehab_assessments = rehab_assessments fs @ rehab_block (Suc (length (properties fs))) p\<rparr>"
  unfolding transform_property_def Let_def valuations_loop hoa_loop rehab_loop
  by (simp add: valuation_block_def hoa_block_def rehab_block_def)

lemma transform_fold:
  "foldl transform_property fs ps =
     \<lparr>properties = properties fs @ map property_row ps,
      valuations = valuations fs @ blocks valuation_block (length (properties fs)) ps,
      hoa_fees = hoa_fees fs @ blocks hoa_block (length (properties fs)) ps,
      rehab_assessments = rehab_assessments fs @ blocks rehab_block (length (properties fs)) ps\<rparr>"
proof (induction ps arbitrary: fs)
  case Nil
  show ?case by (simp add: blocks_def)
next
  case (Cons p ps)
  have "foldl transform_property fs (p # ps) =
      foldl transform_property (transform_property fs p) ps" by simp
  also have "\<dots> =
     \<lparr>properties = properties fs @ map property_row (p # ps),
      valuations = valuations fs @ blocks valuation_block (length (properties fs)) (p # ps),
      hoa_fees = hoa_fees fs @ blocks hoa_block (length (properties fs)) (p # ps),
      rehab_assessments =
        rehab_assessments fs @ blocks rehab_block (length (properties fs)) (p # ps)\<rparr>"
    unfolding Cons.IH by (simp add: transform_property_eq blocks_def)
  finally show ?case .
qed

lemma transform_closed_form:
  "transform_properties_to_facts ps =
     \<lparr>properties = map property_row ps,
      valuations = blocks valuation_block 0 ps,
      hoa_fees = blocks hoa_block 0 ps,
      rehab_assessments = blocks rehab_block 0 ps\<rparr>"
  by (simp add: transform_properties_to_facts_def transform_fold)



















section \<open>The dimension extractor\<close>

lemma add_dimension_values_fields:
  "markets (add_dimension_values ds r) =
     (if truthy (dict_get r ''market'') then insert (dict_get r ''market'') (markets ds) else markets ds)"
  "sources (add_dimension_values ds r) =
     (if truthy (dict_get r ''source'') then insert (dict_get r ''source'') (sources ds) else sources ds)"
  "property_types (add_dimension_values ds r) =
     (if truthy (dict_get r ''property_type'') then insert (dict_get r ''property_type'') (property_types ds) else property_types ds)"
  "layouts (add_dimension_values ds r) =
     (if truthy (dict_get r ''layout'') then insert (dict_get r ''layout'') (layouts ds) else layouts ds)"
  by (simp_all add: add_dimension_values_def Let_def)

lemma markets_fold:
  "markets (foldl add_dimension_values ds rows) = markets ds \<union> truthy_values ''market'' rows"
  by (induction rows arbitrary: ds) (auto simp: add_dimension_values_fields truthy_values_def)

lemma sources_fold:
  "sources (foldl add_dimension_values ds rows) = sources ds \<union> truthy_values ''source'' rows"
  by (induction rows arbitrary: ds) (auto simp: add_dimension_values_fields truthy_values_def)

lemma property_types_fold:
  "property_types (foldl add_dimension_values ds rows) =
     property_types ds \<union> truthy_values ''property_type'' rows"
  by (induction rows arbitrary: ds) (auto simp: add_dimension_values_fields truthy_values_def)

lemma layouts_fold:
  "layouts (foldl add_dimension_values ds rows) = layouts ds \<union> truthy_values ''layout'' rows"
  by (induction rows arbitrary: ds) (auto simp: add_dimension_values_fields truthy_values_def)

lemma truthy_present:
  assumes "string_or_absent (r key)"
  shows "(if truthy (dict_get r key) then {dict_get r key} else {}) =
     set_option (present_string (r key))"
proof (cases "r key")
  case None
  then show ?thesis by (simp add: dict_get_def truthy_def present_string_def)
next
  case (Some v)
  with assms show ?thesis
    by (cases v) (simp_all add: dict_get_def truthy_def present_string_def string_or_absent_def)
qed

lemma truthy_values_present:
  assumes "\<forall>r \<in> set rows. string_or_absent (r key)"
  shows "truthy_values key rows = present_values key rows"
  using assms
proof (induction rows)
  case Nil
  show ?case by (simp add: truthy_values_def present_values_def map_filter_simps)
next
  case (Cons r rows)
  then have r: "string_or_absent (r key)" and IH: "truthy_values key rows = present_values key rows"
    by simp_all
  have "truthy_values key (r # rows) =
      (if truthy (dict_get r key) then {dict_get r key} else {}) \<union> truthy_values key rows"
    by (simp add: truthy_values_def)
  also have "\<dots> = set_option (present_string (r key)) \<union> present_values key rows"
    by (simp only: truthy_present [of r key, OF r] IH)
  also have "\<dots> = present_values key (r # rows)"
    by (cases "present_string (r key)") (simp_all add: present_values_def map_filter_simps)
  finally show ?case .
qed

lemma string_columns_key:
  assumes "string_columns rows" and "key \<in> set dimension_columns"
  shows "\<forall>r \<in> set rows. string_or_absent (r key)"
  using assms by (auto simp: string_columns_def list_all_iff)

lemma present_string_Some_iff:
  "present_string x = Some v \<longleftrightarrow> (\<exists>s. x = Some (PStr s) \<and> s \<noteq> [] \<and> v = PStr s)"
proof (cases x)
  case None
  then show ?thesis by (simp add: present_string_def)
next
  case (Some w)
  then show ?thesis by (cases w) (auto simp: present_string_def)
qed

lemma present_values_Cons:
  "present_values key (r # rows) = set_option (present_string (r key)) \<union> present_values key rows"
  by (cases "present_string (r key)") (simp_all add: present_values_def map_filter_simps)

lemma present_values_iff:
  "v \<in> present_values key rows \<longleftrightarrow>
     (\<exists>r \<in> set rows. \<exists>s. r key = Some (PStr s) \<and> s \<noteq> [] \<and> v = PStr s)"
proof (induction rows)
  case Nil
  show ?case by (simp add: present_values_def map_filter_simps)
next
  case (Cons r rows)
  have "v \<in> present_values key (r # rows) \<longleftrightarrow>
      present_string (r key) = Some v \<or> v \<in> present_values key rows"
    by (auto simp: present_values_Cons)
  then show ?case
    unfolding Cons.IH present_string_Some_iff by auto
qed

lemma property_row_dimension_columns:
  "property_row p ''market'' = Some (opt_str (market p))"
  "property_row p ''source'' = Some (opt_str (source p))"
  "property_row p ''property_type'' = Some (PStr (property_type p))"
  "property_row p ''layout'' = Some (opt_str (layout p))"
  by (simp_all add: property_row_def)

lemma string_columns_transform:
  "string_columns (properties (transform_properties_to_facts ps))"
  by (simp add: transform_closed_form string_columns_def dimension_columns_def list_all_iff
      property_row_dimension_columns string_or_absent_def opt_str_def split: option.split)

text \<open>
  C9. For fact rows whose four dimension columns hold a string or nothing (as the rows of
  the denormalizer do), each of the four dimension sets holds exactly the strings of its
  column that are present and not empty in some property row: a set, so duplicates
  collapse, and neither \<open>None\<close> nor the empty string is ever a member. Two fact row
  sets with the same property rows give the same dimensions.
\<close>

theorem dimension_extraction:
  assumes "string_columns (properties fs)"
  shows "markets (extract_dimension_values fs) = present_values ''market'' (properties fs)
   \<and> sources (extract_dimension_values fs) = present_values ''source'' (properties fs)
   \<and> property_types (extract_dimension_values fs) =
       present_values ''property_type'' (properties fs)
   \<and> layouts (extract_dimension_values fs) = present_values ''layout'' (properties fs)
   \<and> (\<forall>v. v \<in> present_values key (properties fs) \<longleftrightarrow>
         (\<exists>r \<in> set (properties fs). \<exists>s. r key = Some (PStr s) \<and> s \<noteq> [] \<and> v = PStr s))
   \<and> PNone \<notin> markets (extract_dimension_values fs) \<union> sources (extract_dimension_values fs)
         \<union> property_types (extract_dimension_values fs)
         \<union> layouts (extract_dimension_values fs)
   \<and> PStr [] \<notin> markets (extract_dimension_values fs) \<union> sources (extract_dimension_values fs)
         \<union> property_types (extract_dimension_values fs)
         \<union> layouts (extract_dimension_values fs)
   \<and> (properties fs = properties fs' \<longrightarrow>
         extract_dimension_values fs = extract_dimension_values fs')"
proof -
  have keys: "''market'' \<in> set dimension_columns" "''source'' \<in> set dimension_columns"
    "''property_type'' \<in> set dimension_columns" "''layout'' \<in> set dimension_columns"
    by (simp_all add: dimension_columns_def)
  note tv = truthy_values_present [OF string_columns_key [OF assms]]
  have m: "markets (extract_dimension_values fs) = present_values ''market'' (properties fs)"
    by (simp add: extract_dimension_values_def markets_fold tv [OF keys(1)])
  have so: "sources (extract_dimension_values fs) = present_values ''source'' (properties fs)"
    by (simp add: extract_dimension_values_def sources_fold tv [OF keys(2)])
  have pt: "property_types (extract_dimension_values fs) =
      present_values ''property_type'' (properties fs)"
    by (simp add: extract_dimension_values_def property_types_fold tv [OF keys(3)])
  have la: "layouts (extract_dimension_values fs) = present_values ''layout'' (properties fs)"
    by (simp add: extract_dimension_values_def layouts_fold tv [OF keys(4)])
  have nn: "PNone \<notin> present_values k rows" "PStr [] \<notin> present_values k rows" for k rows
    by (simp_all add: present_values_iff)
  have same: "properties fs = properties fs' \<longrightarrow>
      extract_dimension_values fs = extract_dimension_values fs'"
    by (simp add: extract_dimension_values_def)
  show ?thesis
    unfolding m so pt la using nn same by (simp add: present_values_iff)
qed

theorem dimension_extraction_witness:
  "string_columns (properties (transform_properties_to_facts
      [scenario_property, scenario_property\<lparr>market := None\<rparr>, scenario_property,
       scenario_property\<lparr>market := Some []\<rparr>, scenario_property\<lparr>market := Some ''Austin''\<rparr>]))
   \<and> markets (extract_dimension_values (transform_properties_to_facts
      [scenario_property, scenario_property\<lparr>market := None\<rparr>, scenario_property,
       scenario_property\<lparr>market := Some []\<rparr>, scenario_property\<lparr>market := Some ''Austin''\<rparr>])) =
     {PStr ''Dallas'', PStr ''Austin''}
   \<and> extract_dimension_values
       ((transform_properties_to_facts [scenario_property])\<lparr>valuations := []\<rparr>) =
     extract_dimension_values (transform_properties_to_facts [scenario_property])"
proof -
  define ps where
    "ps = [scenario_property, scenario_property\<lparr>market := None\<rparr>, scenario_property,
       scenario_property\<lparr>market := Some []\<rparr>, scenario_property\<lparr>market := Some ''Austin''\<rparr>]"
  define F where "F = transform_properties_to_facts ps"
  define G where "G = (transform_properties_to_facts [scenario_property])\<lparr>valuations := []\<rparr>"
  have sF: "string_columns (properties F)"
    unfolding F_def by (rule string_columns_transform)
  have sG: "string_columns (properties G)"
    using string_columns_transform [of "[scenario_property]"] by (simp add: G_def)
  have "markets (extract_dimension_values F) = present_values ''market'' (properties F)"
    using dimension_extraction [OF sF, of "''market''" F] by (elim conjE)
  also have "properties F = map property_row ps"
    by (simp add: F_def transform_closed_form)
  also have "present_values ''market'' (map property_row ps) = {PStr ''Dallas'', PStr ''Austin''}"
    by (simp add: present_values_def ps_def property_row_dimension_columns map_filter_simps
        scenario_property_def opt_str_def present_string_def)
  finally have m: "markets (extract_dimension_values F) = {PStr ''Dallas'', PStr ''Austin''}" .
  have same: "properties G = properties (transform_properties_to_facts [scenario_property])"
    by (simp add: G_def)
  have "properties G = properties (transform_properties_to_facts [scenario_property]) \<longrightarrow>
      extract_dimension_values G =
        extract_dimension_values (transform_properties_to_facts [scenario_property])"
    using dimension_extraction
      [OF sG, of "''market''" "transform_properties_to_facts [scenario_property]"]
    by (elim conjE)
  with same have "extract_dimension_values G =
      extract_dimension_values (transform_properties_to_facts [scenario_property])"
    by blast
  with sF m show ?thesis
    unfolding F_def G_def ps_def by blast
qed


section \<open>Texts that need no repair\<close>


















































end
